theory Spec2Isabelle
  imports Complex_Main "HOL-Library.Word"
begin

unbundle bit_operations_syntax

section \<open>The Axis controller of the ODrive firmware\<close>

text \<open>
  A shallow embedding of \<^verbatim>\<open>axis.cpp\<close> (the per-axis state machine, its control-loop
  handlers, the homing sub-machine and the step/direction callback) and of the fields of
  \<^verbatim>\<open>endstop.hpp\<close> that the axis reads and writes.

  Conventions of the embedding:
  \<^item> member names lose their trailing underscore (\<^verbatim>\<open>error_\<close> is \<open>error\<close>);
  \<^item> \<^verbatim>\<open>int32_t\<close>, \<^verbatim>\<open>unsigned int\<close> and the error bitset are \<open>32 word\<close>;
  \<^item> \<^verbatim>\<open>float\<close> is a type parameter \<open>'f\<close>; its arithmetic is the record
    \<open>float_ops\<close> handed to every function that computes with floats, so no
    rounding behaviour is assumed;
  \<^item> enumerator values, macros and the collaborator classes (Motor, Encoder,
    Controller, ...) are declared outside the two source files; values are taken as
    the parameter record \<open>axis_consts\<close>, method bodies as the parameter record
    \<open>externals\<close>;
  \<^item> \<open>world\<close> is the state of everything outside the axis (hardware, the other
    threads, private collaborator state): externals may read and change it.
\<close>

subsection \<open>Enumerations\<close>

datatype axis_state =
    AXIS_STATE_UNDEFINED
  | AXIS_STATE_IDLE
  | AXIS_STATE_STARTUP_SEQUENCE
  | AXIS_STATE_FULL_CALIBRATION_SEQUENCE
  | AXIS_STATE_MOTOR_CALIBRATION
  | AXIS_STATE_SENSORLESS_CONTROL
  | AXIS_STATE_ENCODER_INDEX_SEARCH
  | AXIS_STATE_ENCODER_OFFSET_CALIBRATION
  | AXIS_STATE_HOMING
  | AXIS_STATE_CLOSED_LOOP_CONTROL

text \<open>The third value stands for every value of \<^verbatim>\<open>homing_state_\<close> other than the two
  the source names; the source reaches it through the final \<^verbatim>\<open>else\<close>.\<close>

datatype homing_state_t =
    HOMING_STATE_INACTIVE
  | HOMING_STATE_HOMING
  | HOMING_STATE_MOVE_TO_ZERO

datatype ctrl_mode =
    CTRL_MODE_CURRENT_CONTROL
  | CTRL_MODE_VELOCITY_CONTROL
  | CTRL_MODE_POSITION_CONTROL
  | CTRL_MODE_TRAJECTORY_CONTROL

text \<open>Only \<^verbatim>\<open>ARMED_STATE_DISARMED\<close> is named by the source; the second value stands
  for every other armed state.\<close>

datatype armed_state_t = ARMED_STATE_DISARMED | ARMED_STATE_NOT_DISARMED

subsection \<open>Floating point as a parameter\<close>

record 'f float_ops =
  fadd :: "'f \<Rightarrow> 'f \<Rightarrow> 'f"
  fmul :: "'f \<Rightarrow> 'f \<Rightarrow> 'f"
  fdiv :: "'f \<Rightarrow> 'f \<Rightarrow> 'f"
  fneg :: "'f \<Rightarrow> 'f"
  flt :: "'f \<Rightarrow> 'f \<Rightarrow> bool"
  fle :: "'f \<Rightarrow> 'f \<Rightarrow> bool"
  feq :: "'f \<Rightarrow> 'f \<Rightarrow> bool"
  f_of_int :: "int \<Rightarrow> 'f"
  int32_of_f :: "'f \<Rightarrow> 32 word"

text \<open>
  \<open>f_of_int\<close> is the conversion of an integer to \<^verbatim>\<open>float\<close> and gives the literals
  (\<^verbatim>\<open>0.0f\<close> is \<open>f_of_int F 0\<close>); \<open>int32_of_f\<close> is the implicit conversion of a
  \<^verbatim>\<open>float\<close> to \<^verbatim>\<open>int32_t\<close>.

  The instance used to run the definitions on concrete inputs: the reals, where the
  conversion to \<^verbatim>\<open>int32_t\<close> discards the fractional part (C++ truncates towards zero).
\<close>

definition trunc_toward_zero :: "real \<Rightarrow> int" where
  "trunc_toward_zero x = (if 0 \<le> x then \<lfloor>x\<rfloor> else \<lceil>x\<rceil>)"

definition real_ops :: "real float_ops" where
  "real_ops = \<lparr> fadd = (+), fmul = (*), fdiv = (/), fneg = uminus,
     flt = (<), fle = (\<le>), feq = (=), f_of_int = of_int,
     int32_of_f = (\<lambda>x. word_of_int (trunc_toward_zero x)) \<rparr>"

text \<open>
  A second instance, for inputs where rounding matters: single-precision arithmetic on
  the reals. Every operation returns the exact result rounded to the nearest binary32
  value, ties to the even significand (24 significant bits, the spacing of the
  subnormals below \<open>2\<^sup>-\<^sup>1\<^sup>2\<^sup>6\<close>). Overflow, infinities and NaN are left out.
  \<open>bit_length n\<close> is the number of binary digits of \<open>n\<close>, \<open>binade x\<close> the exponent
  \<open>e\<close> with \<open>2\<^sup>e \<le> \<bar>x\<bar> < 2\<^sup>e\<^sup>+\<^sup>1\<close>, \<open>ulp_binary32 x\<close> the distance between
  neighbouring binary32 values at \<open>x\<close>.
\<close>

fun bit_length :: "nat \<Rightarrow> nat" where
  "bit_length n = (if n = 0 then 0 else Suc (bit_length (n div 2)))"

declare bit_length.simps [simp del]

definition binade :: "real \<Rightarrow> int" where
  "binade x =
    (if 1 \<le> \<bar>x\<bar> then int (bit_length (nat \<lfloor>\<bar>x\<bar>\<rfloor>)) - 1
     else - int (bit_length (nat (\<lceil>1 / \<bar>x\<bar>\<rceil> - 1))))"

definition ulp_binary32 :: "real \<Rightarrow> real" where
  "ulp_binary32 x =
    (let e = max (binade x) (- 126)
     in if 23 \<le> e then 2 ^ nat (e - 23) else 1 / 2 ^ nat (23 - e))"

definition round_binary32 :: "real \<Rightarrow> real" where
  "round_binary32 x =
    (if x = 0 then 0
     else
       (let u = ulp_binary32 x;
            q = x / u;
            n = \<lfloor>q\<rfloor>;
            r = q - of_int n
        in of_int (if r < 1 / 2 then n
                   else if 1 / 2 < r then n + 1
                   else if even n then n else n + 1) * u))"

definition binary32_ops :: "real float_ops" where
  "binary32_ops = \<lparr>
     fadd = (\<lambda>a b. round_binary32 (a + b)),
     fmul = (\<lambda>a b. round_binary32 (a * b)),
     fdiv = (\<lambda>a b. round_binary32 (a / b)),
     fneg = uminus,
     flt = (<), fle = (\<le>), feq = (=),
     f_of_int = (\<lambda>i. round_binary32 (of_int i)),
     int32_of_f = (\<lambda>x. word_of_int (trunc_toward_zero x)) \<rparr>"

subsection \<open>The data model\<close>

text \<open>\<^verbatim>\<open>Endstop\<close> and \<^verbatim>\<open>Endstop::Config_t\<close> (endstop.hpp), the fields the axis uses.\<close>

record 'f endstop_config =
  enabled :: bool
  offset :: "32 word"
  home_percentage :: 'f
  physical_endstop :: bool
  min_ms_homing :: "32 word"

record 'f endstop =
  es_config :: "'f endstop_config"
  endstop_state :: bool
  offset_from_home :: "32 word"

text \<open>The fields of the collaborators that axis.cpp reads or writes directly.\<close>

record 'f encoder =
  pos_estimate :: 'f
  vel_estimate :: 'f
  phase :: 'f
  shadow_count :: "32 word"
  is_ready :: bool
  use_index :: bool

record 'f sensorless_estimator =
  pll_pos :: 'f
  sl_vel_estimate :: 'f
  sl_phase :: 'f

record 'f controller =
  pos_setpoint :: 'f
  vel_setpoint :: 'f
  vel_integrator_current :: 'f
  traj_start_loop_count :: "32 word"
  control_mode :: ctrl_mode
  homing_speed :: 'f

record motor =
  is_calibrated :: bool
  armed_state :: armed_state_t

record 'f axis_config =
  startup_motor_calibration :: bool
  startup_encoder_index_search :: bool
  startup_encoder_offset_calibration :: bool
  startup_closed_loop_control :: bool
  startup_sensorless_control :: bool
  startup_homing :: bool
  enable_step_dir :: bool
  counts_per_step :: 'f
  ramp_up_time :: 'f
  ramp_up_distance :: 'f
  spin_up_current :: 'f
  spin_up_acceleration :: 'f
  spin_up_target_vel :: 'f

text \<open>
  The axis. \<open>finding_min_endstop\<close> and \<open>loop_counter_check\<close> are the two file-level
  variables of axis.cpp. \<open>step_dir_active\<close> is the member \<^verbatim>\<open>enable_step_dir_\<close> (the
  name \<open>enable_step_dir\<close> is the configuration option).
\<close>

record ('f, 'w) axis =
  config :: "'f axis_config"
  encoder :: "'f encoder"
  sensorless_estimator :: "'f sensorless_estimator"
  controller :: "'f controller"
  motor :: motor
  min_endstop :: "'f endstop"
  max_endstop :: "'f endstop"
  task_chain :: "axis_state list"
  requested_state :: axis_state
  error :: "32 word"
  homing_state :: homing_state_t
  step_dir_active :: bool
  loop_counter :: "32 word"
  finding_min_endstop :: bool
  loop_counter_check :: "32 word"
  world :: 'w

text \<open>\<^verbatim>\<open>current_state_\<close> is a reference to \<^verbatim>\<open>task_chain_[0]\<close>.\<close>

definition current_state :: "('f, 'w) axis \<Rightarrow> axis_state" where
  "current_state s = task_chain s ! 0"

definition set_current_state :: "axis_state \<Rightarrow> ('f, 'w) axis \<Rightarrow> ('f, 'w) axis" where
  "set_current_state v s = s\<lparr>task_chain := (task_chain s)[0 := v]\<rparr>"

subsection \<open>Constants declared outside the sources\<close>

text \<open>
  The values of the \<^verbatim>\<open>Error_t\<close> enumerators, the integer values of the
  \<^verbatim>\<open>State_t\<close> and control-mode enumerators (only their order is used), and the
  constants of the current-measurement timer. \<open>homing_deadline K c ms\<close> is the
  value stored by \<^verbatim>\<open>loop_counter_check = c + (CURRENT_MEAS_HZ * ms) / 1000\<close>: the
  arithmetic type of that expression is fixed by the macro.
  \<open>ERROR_CONTROL_LOOP_MISSED\<close> is raised by the control-loop driver only.
\<close>

record 'f axis_consts =
  ERROR_NONE :: "32 word"
  ERROR_INVALID_STATE :: "32 word"
  ERROR_DC_BUS_UNDER_VOLTAGE :: "32 word"
  ERROR_DC_BUS_OVER_VOLTAGE :: "32 word"
  ERROR_BRAKE_RESISTOR_DISARMED :: "32 word"
  ERROR_MOTOR_DISARMED :: "32 word"
  ERROR_MOTOR_FAILED :: "32 word"
  ERROR_CONTROLLER_FAILED :: "32 word"
  ERROR_POS_CTRL_DURING_SENSORLESS :: "32 word"
  ERROR_MIN_ENDSTOP_PRESSED :: "32 word"
  ERROR_MAX_ENDSTOP_PRESSED :: "32 word"
  ERROR_CONTROL_LOOP_MISSED :: "32 word"
  state_value :: "axis_state \<Rightarrow> int"
  ctrl_mode_value :: "ctrl_mode \<Rightarrow> int"
  homing_deadline :: "32 word \<Rightarrow> 32 word \<Rightarrow> 32 word"
  current_meas_period :: 'f

subsection \<open>Loading the task chain\<close>

text \<open>
  \<^verbatim>\<open>task_chain_[pos++] = v\<close> on the pair of the array and \<^verbatim>\<open>pos\<close>. The source has
  no bounds check; a store past the end of the array is detected after the last store
  (see \<open>load_task_chain\<close>).
\<close>

definition store_next :: "axis_state \<Rightarrow> axis_state list \<times> nat \<Rightarrow> axis_state list \<times> nat" where
  "store_next v cp = ((fst cp)[snd cp := v], snd cp + 1)"

definition expand_startup_sequence ::
  "('f, 'w) axis \<Rightarrow> axis_state list \<times> nat \<Rightarrow> axis_state list \<times> nat" where
  "expand_startup_sequence s cp0 =
    (let cp1 = (if startup_motor_calibration (config s)
                then store_next AXIS_STATE_MOTOR_CALIBRATION cp0 else cp0);
         cp2 = (if startup_encoder_index_search (config s) \<and> use_index (encoder s)
                then store_next AXIS_STATE_ENCODER_INDEX_SEARCH cp1 else cp1);
         cp3 = (if startup_encoder_offset_calibration (config s)
                then store_next AXIS_STATE_ENCODER_OFFSET_CALIBRATION cp2 else cp2);
         cp4 = (if startup_closed_loop_control (config s)
                then store_next AXIS_STATE_CLOSED_LOOP_CONTROL
                       (if startup_homing (config s)
                        then store_next AXIS_STATE_HOMING cp3 else cp3)
                else if startup_sensorless_control (config s)
                then store_next AXIS_STATE_SENSORLESS_CONTROL cp3
                else cp3)
     in store_next AXIS_STATE_IDLE cp4)"

definition expand_request ::
  "('f, 'w) axis \<Rightarrow> axis_state list \<times> nat \<Rightarrow> axis_state list \<times> nat" where
  "expand_request s cp0 =
    (if requested_state s = AXIS_STATE_STARTUP_SEQUENCE then
       expand_startup_sequence s cp0
     else if requested_state s = AXIS_STATE_HOMING then
       store_next AXIS_STATE_IDLE
         (store_next AXIS_STATE_CLOSED_LOOP_CONTROL
           (store_next AXIS_STATE_HOMING cp0))
     else if requested_state s = AXIS_STATE_FULL_CALIBRATION_SEQUENCE then
       store_next AXIS_STATE_IDLE
         (store_next AXIS_STATE_ENCODER_OFFSET_CALIBRATION
           (let cp1 = store_next AXIS_STATE_MOTOR_CALIBRATION cp0
            in if use_index (encoder s)
               then store_next AXIS_STATE_ENCODER_INDEX_SEARCH cp1 else cp1))
     else if requested_state s \<noteq> AXIS_STATE_UNDEFINED then
       store_next AXIS_STATE_IDLE (store_next (requested_state s) cp0)
     else cp0)"

text \<open>
  The first block of the loop body of \<^verbatim>\<open>run_state_machine_loop\<close>. The result is
  \<open>None\<close> when a store went past the end of \<^verbatim>\<open>task_chain_\<close> (undefined behaviour
  in the source).
\<close>

definition load_task_chain :: "'f axis_consts \<Rightarrow> ('f, 'w) axis \<Rightarrow> ('f, 'w) axis option" where
  "load_task_chain K s =
    (if requested_state s \<noteq> AXIS_STATE_UNDEFINED then
       (let cp = store_next AXIS_STATE_UNDEFINED (expand_request s (task_chain s, 0))
        in if snd cp \<le> length (task_chain s)
           then Some (s\<lparr>task_chain := fst cp,
                        requested_state := AXIS_STATE_UNDEFINED,
                        error := error s AND NOT (ERROR_INVALID_STATE K)\<rparr>)
           else None)
     else Some s)"

subsection \<open>Validation and advancement\<close>

definition validate_state :: "'f axis_consts \<Rightarrow> ('f, 'w) axis \<Rightarrow> ('f, 'w) axis" where
  "validate_state K s =
    (let s1 = (if state_value K AXIS_STATE_MOTOR_CALIBRATION < state_value K (current_state s)
                  \<and> \<not> is_calibrated (motor s)
               then set_current_state AXIS_STATE_UNDEFINED s else s)
     in if state_value K AXIS_STATE_ENCODER_OFFSET_CALIBRATION < state_value K (current_state s1)
           \<and> \<not> is_ready (encoder s1)
        then set_current_state AXIS_STATE_UNDEFINED s1 else s1)"

text \<open>
  \<^verbatim>\<open>memcpy(task_chain_, task_chain_ + 1, sizeof(task_chain_) - sizeof(task_chain_[0]))\<close>:
  every entry but the last takes the value of its right neighbour, the last entry keeps
  its value. (Source and destination overlap; the copy is taken to run from low to high
  addresses.)
\<close>

definition shift_task_chain :: "axis_state list \<Rightarrow> axis_state list" where
  "shift_task_chain c = (if c = [] then [] else tl c @ [last c])"

definition advance :: "bool \<Rightarrow> ('f, 'w) axis \<Rightarrow> ('f, 'w) axis" where
  "advance status s =
    (if \<not> status then set_current_state AXIS_STATE_IDLE s
     else s\<lparr>task_chain := shift_task_chain (task_chain s)\<rparr>)"

subsection \<open>Code outside the sources\<close>

text \<open>
  The methods of the collaborators, the GPIO service, the scheduler and the board-wide
  variables. A method that may reach the axis through its back-pointer is a function
  on the whole state; the setters of \<^verbatim>\<open>Controller\<close> and \<^verbatim>\<open>Encoder\<close> and the getter
  of \<^verbatim>\<open>Endstop\<close> act on their own object. The trajectory planner's state is part of
  \<open>world\<close>. A method \<^verbatim>\<open>m\<close> of class \<^verbatim>\<open>C\<close> is the field \<open>C_m\<close>; the two
  end-stops' \<^verbatim>\<open>update\<close> are \<open>Endstop_update_min\<close> and \<open>Endstop_update_max\<close>.
\<close>

record ('f, 'w) externals =
  Motor_arm :: "('f, 'w) axis \<Rightarrow> bool \<times> ('f, 'w) axis"
  Motor_run_calibration :: "('f, 'w) axis \<Rightarrow> bool \<times> ('f, 'w) axis"
  Motor_update :: "'f \<Rightarrow> 'f \<Rightarrow> ('f, 'w) axis \<Rightarrow> bool \<times> ('f, 'w) axis"
  Motor_do_checks :: "('f, 'w) axis \<Rightarrow> ('f, 'w) axis"
  safety_critical_disarm_motor_pwm :: "('f, 'w) axis \<Rightarrow> ('f, 'w) axis"
  Encoder_run_index_search :: "('f, 'w) axis \<Rightarrow> bool \<times> ('f, 'w) axis"
  Encoder_run_offset_calibration :: "('f, 'w) axis \<Rightarrow> bool \<times> ('f, 'w) axis"
  Encoder_update :: "('f, 'w) axis \<Rightarrow> ('f, 'w) axis"
  Encoder_do_checks :: "('f, 'w) axis \<Rightarrow> ('f, 'w) axis"
  Encoder_set_linear_count :: "32 word \<Rightarrow> 'f encoder \<Rightarrow> 'f encoder"
  SensorlessEstimator_update :: "('f, 'w) axis \<Rightarrow> ('f, 'w) axis"
  Controller_home_axis :: "('f, 'w) axis \<Rightarrow> bool \<times> ('f, 'w) axis"
  Controller_update :: "'f \<Rightarrow> 'f \<Rightarrow> ('f, 'w) axis \<Rightarrow> (bool \<times> 'f) \<times> ('f, 'w) axis"
  Controller_set_vel_setpoint :: "'f \<Rightarrow> 'f \<Rightarrow> 'f controller \<Rightarrow> 'f controller"
  Controller_set_pos_setpoint :: "'f \<Rightarrow> 'f \<Rightarrow> 'f \<Rightarrow> 'f controller \<Rightarrow> 'f controller"
  planTrapezoidal :: "'f \<Rightarrow> 'f \<Rightarrow> 'f \<Rightarrow> 'f \<Rightarrow> 'f \<Rightarrow> 'f \<Rightarrow> ('f, 'w) axis \<Rightarrow> ('f, 'w) axis"
  Endstop_update_min :: "('f, 'w) axis \<Rightarrow> ('f, 'w) axis"
  Endstop_update_max :: "('f, 'w) axis \<Rightarrow> ('f, 'w) axis"
  Endstop_getEndstopState :: "'f endstop \<Rightarrow> bool"
  wait_for_current_meas :: "('f, 'w) axis \<Rightarrow> bool \<times> ('f, 'w) axis"
  HAL_GPIO_Init_dir_input :: "'w \<Rightarrow> 'w"
  GPIO_subscribe_step :: "'w \<Rightarrow> 'w"
  GPIO_unsubscribe_step :: "'w \<Rightarrow> 'w"
  wrap_pm_pi :: "'f \<Rightarrow> 'f"
  brake_resistor_armed :: "'w \<Rightarrow> bool"
  vbus_voltage :: "'w \<Rightarrow> 'f"
  dc_bus_undervoltage_trip_level :: "'w \<Rightarrow> 'f"
  dc_bus_overvoltage_trip_level :: "'w \<Rightarrow> 'f"

text \<open>
  Modelled from the spec: \<^verbatim>\<open>check_for_errors\<close> is defined in axis.hpp, which is not
  among the sources. The spec (4.4) gives its result: true iff \<^verbatim>\<open>error == None\<close>.
\<close>

definition check_for_errors :: "'f axis_consts \<Rightarrow> ('f, 'w) axis \<Rightarrow> bool" where
  "check_for_errors K s = (error s = ERROR_NONE K)"

text \<open>\<^verbatim>\<open>error_ |= e\<close>.\<close>

definition set_error :: "32 word \<Rightarrow> ('f, 'w) axis \<Rightarrow> ('f, 'w) axis" where
  "set_error e s = s\<lparr>error := error s OR e\<rparr>"

subsection \<open>Step/direction input\<close>

text \<open>\<^verbatim>\<open>Axis::step_cb\<close>; \<open>dir_pin_set\<close> is the reading of the direction pin
  (\<^verbatim>\<open>HAL_GPIO_ReadPin(...) == GPIO_PIN_SET\<close>).\<close>

definition step_cb :: "'f float_ops \<Rightarrow> bool \<Rightarrow> ('f, 'w) axis \<Rightarrow> ('f, 'w) axis" where
  "step_cb F dir_pin_set s =
    (if step_dir_active s then
       (let dir = (if dir_pin_set then f_of_int F 1 else fneg F (f_of_int F 1))
        in s\<lparr>controller := (controller s)\<lparr>pos_setpoint :=
                fadd F (pos_setpoint (controller s))
                       (fmul F dir (counts_per_step (config s)))\<rparr>\<rparr>)
     else s)"

definition set_step_dir_enabled ::
  "('f, 'w) externals \<Rightarrow> bool \<Rightarrow> ('f, 'w) axis \<Rightarrow> ('f, 'w) axis" where
  "set_step_dir_enabled X enable s =
    (if enable then
       s\<lparr>world := GPIO_subscribe_step X (HAL_GPIO_Init_dir_input X (world s)),
         step_dir_active := True\<rparr>
     else
       s\<lparr>step_dir_active := False,
         world := GPIO_unsubscribe_step X (world s)\<rparr>)"

subsection \<open>Checks and updates\<close>

text \<open>\<^verbatim>\<open>!(vbus_voltage >= level)\<close> is written with \<open>fle\<close> and the operands swapped.\<close>

definition do_checks ::
  "'f float_ops \<Rightarrow> 'f axis_consts \<Rightarrow> ('f, 'w) externals \<Rightarrow> ('f, 'w) axis \<Rightarrow> bool \<times> ('f, 'w) axis" where
  "do_checks F K X s =
    (let s1 = (if \<not> brake_resistor_armed X (world s)
               then set_error (ERROR_BRAKE_RESISTOR_DISARMED K) s else s);
         s2 = (if current_state s1 \<noteq> AXIS_STATE_IDLE
                  \<and> armed_state (motor s1) = ARMED_STATE_DISARMED
               then set_error (ERROR_MOTOR_DISARMED K) s1 else s1);
         s3 = (if \<not> fle F (dc_bus_undervoltage_trip_level X (world s2)) (vbus_voltage X (world s2))
               then set_error (ERROR_DC_BUS_UNDER_VOLTAGE K) s2 else s2);
         s4 = (if \<not> fle F (vbus_voltage X (world s3)) (dc_bus_overvoltage_trip_level X (world s3))
               then set_error (ERROR_DC_BUS_OVER_VOLTAGE K) s3 else s3);
         s5 = Encoder_do_checks X (Motor_do_checks X s4)
     in (check_for_errors K s5, s5))"

definition do_updates ::
  "'f axis_consts \<Rightarrow> ('f, 'w) externals \<Rightarrow> ('f, 'w) axis \<Rightarrow> bool \<times> ('f, 'w) axis" where
  "do_updates K X s =
    (let s1 = Endstop_update_max X
                (Endstop_update_min X
                  (SensorlessEstimator_update X
                    (Encoder_update X s)))
     in (check_for_errors K s1, s1))"

subsection \<open>The control-loop driver\<close>

text \<open>
  Modelled from the spec: \<^verbatim>\<open>run_control_loop\<close> is a template defined in axis.hpp,
  which is not among the sources. The spec (4.1) gives its steps: (1) wait for the
  current-measurement signal; (2) if the signal was missed, raise ControlLoopMissed and
  return, unless the axis is in Idle; (3) increment \<^verbatim>\<open>loop_counter\<close>; (4) \<^verbatim>\<open>do_updates\<close>;
  (5) \<^verbatim>\<open>do_checks\<close>; (6) if either step accumulated errors, return; (7) call the tick
  body; (8) return when the body returned false or a state change is pending.

  The tick body is a C++ closure; \<open>'l\<close> is the type of the local variables it captures
  by reference. The loop need not end: the result is \<open>None\<close> when it runs forever.
\<close>

partial_function (option) run_control_loop ::
  "'f float_ops \<Rightarrow> 'f axis_consts \<Rightarrow> ('f, 'w) externals
    \<Rightarrow> ('l \<Rightarrow> ('f, 'w) axis \<Rightarrow> bool \<times> 'l \<times> ('f, 'w) axis)
    \<Rightarrow> 'l \<Rightarrow> ('f, 'w) axis \<Rightarrow> ('l \<times> ('f, 'w) axis) option" where
  "run_control_loop F K X body l s =
    (let (signalled, s1) = wait_for_current_meas X s in
     if \<not> signalled \<and> current_state s1 \<noteq> AXIS_STATE_IDLE then
       Some (l, set_error (ERROR_CONTROL_LOOP_MISSED K) s1)
     else
       (let s2 = s1\<lparr>loop_counter := loop_counter s1 + 1\<rparr>;
            (updates_ok, s3) = do_updates K X s2;
            (checks_ok, s4) = do_checks F K X s3 in
        if \<not> updates_ok \<or> \<not> checks_ok then Some (l, s4)
        else
          (let (continue, l', s5) = body l s4 in
           if \<not> continue \<or> requested_state s5 \<noteq> AXIS_STATE_UNDEFINED then Some (l', s5)
           else run_control_loop F K X body l' s5)))"

subsection \<open>Sensorless spin-up\<close>

text \<open>The two tick bodies of \<^verbatim>\<open>run_sensorless_spin_up\<close>. The first captures \<^verbatim>\<open>x\<close>, the
  second \<^verbatim>\<open>vel\<close> and \<^verbatim>\<open>phase\<close>.\<close>

definition spin_up_early_tick ::
  "'f float_ops \<Rightarrow> 'f axis_consts \<Rightarrow> ('f, 'w) externals
    \<Rightarrow> 'f \<Rightarrow> ('f, 'w) axis \<Rightarrow> bool \<times> 'f \<times> ('f, 'w) axis" where
  "spin_up_early_tick F K X x s =
    (let phase = wrap_pm_pi X (fmul F (ramp_up_distance (config s)) x);
         I_mag = fmul F (spin_up_current (config s)) x;
         x' = fadd F x (fdiv F (current_meas_period K) (ramp_up_time (config s)));
         (ok, s1) = Motor_update X I_mag phase s
     in if \<not> ok then (False, x', set_error (ERROR_MOTOR_FAILED K) s1)
        else (flt F x' (f_of_int F 1), x', s1))"

definition spin_up_late_tick ::
  "'f float_ops \<Rightarrow> 'f axis_consts \<Rightarrow> ('f, 'w) externals
    \<Rightarrow> 'f \<times> 'f \<Rightarrow> ('f, 'w) axis \<Rightarrow> bool \<times> ('f \<times> 'f) \<times> ('f, 'w) axis" where
  "spin_up_late_tick F K X vp s =
    (let vel = fadd F (fst vp) (fmul F (spin_up_acceleration (config s)) (current_meas_period K));
         phase = wrap_pm_pi X (fadd F (snd vp) (fmul F vel (current_meas_period K)));
         I_mag = spin_up_current (config s);
         (ok, s1) = Motor_update X I_mag phase s
     in if \<not> ok then (False, (vel, phase), set_error (ERROR_MOTOR_FAILED K) s1)
        else (flt F vel (spin_up_target_vel (config s1)), (vel, phase), s1))"

definition run_sensorless_spin_up ::
  "'f float_ops \<Rightarrow> 'f axis_consts \<Rightarrow> ('f, 'w) externals
    \<Rightarrow> ('f, 'w) axis \<Rightarrow> (bool \<times> ('f, 'w) axis) option" where
  "run_sensorless_spin_up F K X s =
    (case run_control_loop F K X (spin_up_early_tick F K X) (f_of_int F 0) s of
       None \<Rightarrow> None
     | Some (x, s1) \<Rightarrow>
         if error s1 \<noteq> ERROR_NONE K then Some (False, s1)
         else
           (let vel = fdiv F (ramp_up_distance (config s1)) (ramp_up_time (config s1));
                phase = wrap_pm_pi X (ramp_up_distance (config s1))
            in case run_control_loop F K X (spin_up_late_tick F K X) (vel, phase) s1 of
                 None \<Rightarrow> None
               | Some (vp, s2) \<Rightarrow>
                   (let s3 = s2\<lparr>controller :=
                               (controller s2)\<lparr>vel_setpoint := spin_up_target_vel (config s2)\<rparr>\<rparr>
                    in Some (check_for_errors K s3, s3))))"

subsection \<open>Sensorless control\<close>

definition sensorless_control_tick ::
  "'f axis_consts \<Rightarrow> ('f, 'w) externals \<Rightarrow> unit \<Rightarrow> ('f, 'w) axis \<Rightarrow> bool \<times> unit \<times> ('f, 'w) axis" where
  "sensorless_control_tick K X u s =
    (if ctrl_mode_value K CTRL_MODE_POSITION_CONTROL \<le> ctrl_mode_value K (control_mode (controller s))
     then (False, (), set_error (ERROR_POS_CTRL_DURING_SENSORLESS K) s)
     else
       (let ((ok, current_setpoint), s1) =
              Controller_update X (pll_pos (sensorless_estimator s))
                                  (sl_vel_estimate (sensorless_estimator s)) s
        in if \<not> ok then (False, (), set_error (ERROR_CONTROLLER_FAILED K) s1)
           else
             (let (ok', s2) = Motor_update X current_setpoint (sl_phase (sensorless_estimator s1)) s1
              in if \<not> ok' then (False, (), s2) else (True, (), s2))))"

definition run_sensorless_control_loop ::
  "'f float_ops \<Rightarrow> 'f axis_consts \<Rightarrow> ('f, 'w) externals
    \<Rightarrow> ('f, 'w) axis \<Rightarrow> (bool \<times> ('f, 'w) axis) option" where
  "run_sensorless_control_loop F K X s =
    (case run_control_loop F K X (sensorless_control_tick K X) ()
            (set_step_dir_enabled X (enable_step_dir (config s)) s) of
       None \<Rightarrow> None
     | Some (u, s1) \<Rightarrow>
         (let s2 = set_step_dir_enabled X False s1
          in Some (check_for_errors K s2, s2)))"

subsection \<open>Closed-loop control and the homing sub-machine\<close>

text \<open>The homing part of the tick body of \<^verbatim>\<open>run_closed_loop_control_loop\<close>, phase
  \<^verbatim>\<open>HOMING_STATE_HOMING\<close>. \<^verbatim>\<open>current_endstop\<close> is a pointer to one of the two
  end-stops, chosen at the start of the tick and dereferenced later.\<close>

datatype endstop_ptr = MIN_ENDSTOP | MAX_ENDSTOP

definition endstop_at :: "endstop_ptr \<Rightarrow> ('f, 'w) axis \<Rightarrow> 'f endstop" where
  "endstop_at p s = (case p of MIN_ENDSTOP \<Rightarrow> min_endstop s | MAX_ENDSTOP \<Rightarrow> max_endstop s)"

definition current_endstop :: "('f, 'w) axis \<Rightarrow> endstop_ptr" where
  "current_endstop s = (if \<not> finding_min_endstop s then MAX_ENDSTOP else MIN_ENDSTOP)"

definition found_end :: "'f float_ops \<Rightarrow> ('f, 'w) axis \<Rightarrow> bool" where
  "found_end F s =
    (feq F (vel_estimate (encoder s)) (f_of_int F 0) \<and> loop_counter_check s \<le> loop_counter s)"

definition homing_found_min ::
  "'f float_ops \<Rightarrow> 'f axis_consts \<Rightarrow> ('f, 'w) externals
    \<Rightarrow> endstop_ptr \<Rightarrow> ('f, 'w) axis \<Rightarrow> ('f, 'w) axis" where
  "homing_found_min F K X p s =
    (let s1 = s\<lparr>min_endstop := (min_endstop s)\<lparr>offset_from_home := shadow_count (encoder s)\<rparr>\<rparr>;
         s2 = s1\<lparr>finding_min_endstop := False\<rparr>;
         s3 = s2\<lparr>loop_counter_check :=
                   homing_deadline K (loop_counter s2) (min_ms_homing (es_config (endstop_at p s2)))\<rparr>
     in if enabled (es_config (max_endstop s3)) then
          s3\<lparr>controller :=
               Controller_set_vel_setpoint X (homing_speed (controller s3)) (f_of_int F 0)
                 ((controller s3)\<lparr>vel_integrator_current := f_of_int F 0\<rparr>)\<rparr>
        else
          s3\<lparr>encoder := Encoder_set_linear_count X (offset (es_config (min_endstop s3))) (encoder s3),
             controller :=
               Controller_set_pos_setpoint X (f_of_int F 0) (f_of_int F 0) (f_of_int F 0) (controller s3),
             homing_state := HOMING_STATE_MOVE_TO_ZERO\<rparr>)"

definition homing_found_max ::
  "'f float_ops \<Rightarrow> ('f, 'w) externals \<Rightarrow> ('f, 'w) axis \<Rightarrow> ('f, 'w) axis" where
  "homing_found_max F X s =
    (let total_cpr = shadow_count (encoder s) - offset_from_home (min_endstop s);
         s3 =
          (if flt F (f_of_int F 0) (home_percentage (es_config (min_endstop s))) then
             (let s1 = s\<lparr>min_endstop := (min_endstop s)\<lparr>offset_from_home :=
                          int32_of_f F
                            (fmul F (fneg F (fmul F (f_of_int F (sint total_cpr)) (f_of_int F 1)))
                                    (fdiv F (home_percentage (es_config (min_endstop s)))
                                            (f_of_int F 100)))\<rparr>\<rparr>;
                  s2 = s1\<lparr>max_endstop := (max_endstop s1)\<lparr>offset_from_home :=
                          total_cpr + offset_from_home (min_endstop s1)\<rparr>\<rparr>
              in s2\<lparr>encoder :=
                      Encoder_set_linear_count X (- offset_from_home (min_endstop s2)) (encoder s2)\<rparr>)
           else
             (let s1 = s\<lparr>min_endstop := (min_endstop s)\<lparr>offset_from_home :=
                          offset (es_config (min_endstop s))\<rparr>\<rparr>;
                  s2 = s1\<lparr>max_endstop := (max_endstop s1)\<lparr>offset_from_home :=
                          total_cpr + offset_from_home (min_endstop s1)\<rparr>\<rparr>
              in s2\<lparr>encoder :=
                      Encoder_set_linear_count X (offset (es_config (min_endstop s2))) (encoder s2)\<rparr>))
     in s3\<lparr>controller :=
             Controller_set_pos_setpoint X (f_of_int F 0) (f_of_int F 0) (f_of_int F 0) (controller s3),
           homing_state := HOMING_STATE_MOVE_TO_ZERO\<rparr>)"

text \<open>Phase \<^verbatim>\<open>HOMING_STATE_MOVE_TO_ZERO\<close>.\<close>

definition homing_move_to_zero ::
  "'f float_ops \<Rightarrow> ('f, 'w) externals \<Rightarrow> ('f, 'w) axis \<Rightarrow> ('f, 'w) axis" where
  "homing_move_to_zero F X s =
    (if \<not> Endstop_getEndstopState X (min_endstop s) then
       (let s1 = planTrapezoidal X (f_of_int F 0)
                   (pos_estimate (encoder s)) (vel_estimate (encoder s))
                   (homing_speed (controller s))
                   (fdiv F (homing_speed (controller s)) (f_of_int F 4))
                   (fdiv F (homing_speed (controller s)) (f_of_int F 4)) s;
            s2 = s1\<lparr>controller := (controller s1)\<lparr>traj_start_loop_count := loop_counter s1\<rparr>\<rparr>
        in s2\<lparr>controller := (controller s2)\<lparr>control_mode := CTRL_MODE_TRAJECTORY_CONTROL\<rparr>\<rparr>)
     else s)"

text \<open>The tick body after the controller and motor updates: the homing sub-machine,
  or the end-stop guard when no homing is under way. (The source's first \<^verbatim>\<open>if\<close> on
  \<^verbatim>\<open>found_end\<close> and \<^verbatim>\<open>physical_endstop\<close> has an empty body.)\<close>

definition homing_tick ::
  "'f float_ops \<Rightarrow> 'f axis_consts \<Rightarrow> ('f, 'w) externals
    \<Rightarrow> ('f, 'w) axis \<Rightarrow> bool \<times> ('f, 'w) axis" where
  "homing_tick F K X s =
    (if homing_state s = HOMING_STATE_HOMING then
       (let p = current_endstop s
        in if Endstop_getEndstopState X (endstop_at p s) \<or> found_end F s then
             (if finding_min_endstop s then (True, homing_found_min F K X p s)
              else (True, homing_found_max F X s))
           else (True, s))
     else if homing_state s = HOMING_STATE_MOVE_TO_ZERO then
       (True, homing_move_to_zero F X s)
     else if enabled (es_config (min_endstop s)) \<and> Endstop_getEndstopState X (min_endstop s) then
       (False, set_error (ERROR_MIN_ENDSTOP_PRESSED K) s)
     else if enabled (es_config (max_endstop s)) \<and> Endstop_getEndstopState X (max_endstop s) then
       (False, set_error (ERROR_MAX_ENDSTOP_PRESSED K) s)
     else (True, s))"

definition closed_loop_control_tick ::
  "'f float_ops \<Rightarrow> 'f axis_consts \<Rightarrow> ('f, 'w) externals
    \<Rightarrow> unit \<Rightarrow> ('f, 'w) axis \<Rightarrow> bool \<times> unit \<times> ('f, 'w) axis" where
  "closed_loop_control_tick F K X u s =
    (let ((ok, current_setpoint), s1) =
           Controller_update X (pos_estimate (encoder s)) (vel_estimate (encoder s)) s
     in if \<not> ok then (False, (), set_error (ERROR_CONTROLLER_FAILED K) s1)
        else
          (let (ok', s2) = Motor_update X current_setpoint (phase (encoder s1)) s1
           in if \<not> ok' then (False, (), s2)
              else (let (continue, s3) = homing_tick F K X s2 in (continue, (), s3))))"

definition run_closed_loop_control_loop ::
  "'f float_ops \<Rightarrow> 'f axis_consts \<Rightarrow> ('f, 'w) externals
    \<Rightarrow> ('f, 'w) axis \<Rightarrow> (bool \<times> ('f, 'w) axis) option" where
  "run_closed_loop_control_loop F K X s =
    (let s1 = set_step_dir_enabled X (enable_step_dir (config s)) s;
         s2 = s1\<lparr>finding_min_endstop := True\<rparr>;
         s3 = s2\<lparr>loop_counter_check :=
                   homing_deadline K (loop_counter s2) (min_ms_homing (es_config (min_endstop s2)))\<rparr>
     in case run_control_loop F K X (closed_loop_control_tick F K X) () s3 of
          None \<Rightarrow> None
        | Some (u, s4) \<Rightarrow>
            (let s5 = set_step_dir_enabled X False s4
             in Some (check_for_errors K s5, s5)))"

subsection \<open>Idle\<close>

definition run_idle_loop ::
  "'f float_ops \<Rightarrow> 'f axis_consts \<Rightarrow> ('f, 'w) externals
    \<Rightarrow> ('f, 'w) axis \<Rightarrow> (bool \<times> ('f, 'w) axis) option" where
  "run_idle_loop F K X s =
    (case run_control_loop F K X (\<lambda>u t. (True, (), t)) ()
            (safety_critical_disarm_motor_pwm X s) of
       None \<Rightarrow> None
     | Some (u, s1) \<Rightarrow> Some (check_for_errors K s1, s1))"

subsection \<open>The state machine\<close>

text \<open>The \<^verbatim>\<open>switch\<close> of \<^verbatim>\<open>run_state_machine_loop\<close>: the handler of the current state,
  its status and the state it leaves. \<open>None\<close>: the handler's control loop never
  returns.\<close>

definition dispatch ::
  "'f float_ops \<Rightarrow> 'f axis_consts \<Rightarrow> ('f, 'w) externals
    \<Rightarrow> ('f, 'w) axis \<Rightarrow> (bool \<times> ('f, 'w) axis) option" where
  "dispatch F K X s =
    (case current_state s of
       AXIS_STATE_MOTOR_CALIBRATION \<Rightarrow> Some (Motor_run_calibration X s)
     | AXIS_STATE_ENCODER_INDEX_SEARCH \<Rightarrow> Some (Encoder_run_index_search X s)
     | AXIS_STATE_HOMING \<Rightarrow> Some (Controller_home_axis X s)
     | AXIS_STATE_ENCODER_OFFSET_CALIBRATION \<Rightarrow> Some (Encoder_run_offset_calibration X s)
     | AXIS_STATE_SENSORLESS_CONTROL \<Rightarrow>
         (case run_sensorless_spin_up F K X s of
            None \<Rightarrow> None
          | Some (status, s1) \<Rightarrow>
              if status then run_sensorless_control_loop F K X s1 else Some (status, s1))
     | AXIS_STATE_CLOSED_LOOP_CONTROL \<Rightarrow> run_closed_loop_control_loop F K X s
     | AXIS_STATE_IDLE \<Rightarrow>
         (case run_idle_loop F K X s of
            None \<Rightarrow> None
          | Some (idle_status, s1) \<Rightarrow> Some (Motor_arm X s1))
     | _ \<Rightarrow> Some (False, set_error (ERROR_INVALID_STATE K) s))"

text \<open>One iteration of the \<^verbatim>\<open>for (;;)\<close> loop of \<^verbatim>\<open>run_state_machine_loop\<close>.\<close>

definition state_machine_iteration ::
  "'f float_ops \<Rightarrow> 'f axis_consts \<Rightarrow> ('f, 'w) externals
    \<Rightarrow> ('f, 'w) axis \<Rightarrow> ('f, 'w) axis option" where
  "state_machine_iteration F K X s =
    (case load_task_chain K s of
       None \<Rightarrow> None
     | Some s1 \<Rightarrow>
         (case dispatch F K X (validate_state K s1) of
            None \<Rightarrow> None
          | Some (status, s2) \<Rightarrow> Some (advance status s2)))"

subsection \<open>Example inputs\<close>

text \<open>
  Concrete values on which the definitions are run: enumerator values that are distinct
  single bits and follow the order of states the spec gives (4.6), a tick rate of two
  ticks per millisecond, collaborators that succeed and change nothing (the setters
  store their first argument), and an axis with a calibrated, armed motor and an
  all-\<^verbatim>\<open>Undefined\<close> task chain of ten entries. With these values each stage of the
  spin-up takes two ticks.
\<close>

definition example_consts :: "real axis_consts" where
  "example_consts = \<lparr> ERROR_NONE = 0, ERROR_INVALID_STATE = 1,
     ERROR_DC_BUS_UNDER_VOLTAGE = 2, ERROR_DC_BUS_OVER_VOLTAGE = 4,
     ERROR_BRAKE_RESISTOR_DISARMED = 16, ERROR_MOTOR_DISARMED = 32,
     ERROR_MOTOR_FAILED = 64, ERROR_CONTROLLER_FAILED = 512,
     ERROR_POS_CTRL_DURING_SENSORLESS = 1024, ERROR_MIN_ENDSTOP_PRESSED = 2048,
     ERROR_MAX_ENDSTOP_PRESSED = 4096, ERROR_CONTROL_LOOP_MISSED = 8,
     state_value = (\<lambda>st. case st of
         AXIS_STATE_UNDEFINED \<Rightarrow> 0 | AXIS_STATE_IDLE \<Rightarrow> 1
       | AXIS_STATE_STARTUP_SEQUENCE \<Rightarrow> 2 | AXIS_STATE_FULL_CALIBRATION_SEQUENCE \<Rightarrow> 3
       | AXIS_STATE_MOTOR_CALIBRATION \<Rightarrow> 4 | AXIS_STATE_ENCODER_INDEX_SEARCH \<Rightarrow> 5
       | AXIS_STATE_ENCODER_OFFSET_CALIBRATION \<Rightarrow> 6 | AXIS_STATE_HOMING \<Rightarrow> 7
       | AXIS_STATE_CLOSED_LOOP_CONTROL \<Rightarrow> 8 | AXIS_STATE_SENSORLESS_CONTROL \<Rightarrow> 9),
     ctrl_mode_value = (\<lambda>m. case m of
         CTRL_MODE_CURRENT_CONTROL \<Rightarrow> 1 | CTRL_MODE_VELOCITY_CONTROL \<Rightarrow> 2
       | CTRL_MODE_POSITION_CONTROL \<Rightarrow> 3 | CTRL_MODE_TRAJECTORY_CONTROL \<Rightarrow> 4),
     homing_deadline = (\<lambda>c ms. c + 2 * ms),
     current_meas_period = 1 / 2000 \<rparr>"

definition example_endstop :: "real endstop" where
  "example_endstop = \<lparr> es_config = \<lparr> enabled = False, offset = 0, home_percentage = 0,
       physical_endstop = False, min_ms_homing = 1 \<rparr>,
     endstop_state = False, offset_from_home = 0 \<rparr>"

definition example_axis :: "'w \<Rightarrow> (real, 'w) axis" where
  "example_axis w = \<lparr>
     config = \<lparr> startup_motor_calibration = False, startup_encoder_index_search = False,
       startup_encoder_offset_calibration = False, startup_closed_loop_control = False,
       startup_sensorless_control = False, startup_homing = False, enable_step_dir = False,
       counts_per_step = 25 / 2, ramp_up_time = 1 / 1000, ramp_up_distance = 3,
       spin_up_current = 10, spin_up_acceleration = 4000, spin_up_target_vel = 3004 \<rparr>,
     encoder = \<lparr> pos_estimate = 0, vel_estimate = 0, phase = 0, shadow_count = 0,
       is_ready = True, use_index = False \<rparr>,
     sensorless_estimator = \<lparr> pll_pos = 0, sl_vel_estimate = 0, sl_phase = 0 \<rparr>,
     controller = \<lparr> pos_setpoint = 0, vel_setpoint = 0, vel_integrator_current = 0,
       traj_start_loop_count = 0, control_mode = CTRL_MODE_POSITION_CONTROL, homing_speed = 2000 \<rparr>,
     motor = \<lparr> is_calibrated = True, armed_state = ARMED_STATE_NOT_DISARMED \<rparr>,
     min_endstop = example_endstop,
     max_endstop = example_endstop,
     task_chain = [AXIS_STATE_UNDEFINED, AXIS_STATE_UNDEFINED, AXIS_STATE_UNDEFINED,
       AXIS_STATE_UNDEFINED, AXIS_STATE_UNDEFINED, AXIS_STATE_UNDEFINED, AXIS_STATE_UNDEFINED,
       AXIS_STATE_UNDEFINED, AXIS_STATE_UNDEFINED, AXIS_STATE_UNDEFINED],
     requested_state = AXIS_STATE_UNDEFINED,
     error = 0,
     homing_state = HOMING_STATE_INACTIVE,
     step_dir_active = False,
     loop_counter = 0,
     finding_min_endstop = True,
     loop_counter_check = 0,
     world = w \<rparr>"

definition example_externals :: "(real, 'w) externals" where
  "example_externals = \<lparr>
     Motor_arm = (\<lambda>s. (True, s)),
     Motor_run_calibration = (\<lambda>s. (True, s)),
     Motor_update = (\<lambda>I_mag ph s. (True, s)),
     Motor_do_checks = (\<lambda>s. s),
     safety_critical_disarm_motor_pwm =
       (\<lambda>s. s\<lparr>motor := (motor s)\<lparr>armed_state := ARMED_STATE_DISARMED\<rparr>\<rparr>),
     Encoder_run_index_search = (\<lambda>s. (True, s)),
     Encoder_run_offset_calibration = (\<lambda>s. (True, s)),
     Encoder_update = (\<lambda>s. s),
     Encoder_do_checks = (\<lambda>s. s),
     Encoder_set_linear_count = (\<lambda>n e. e\<lparr>shadow_count := n\<rparr>),
     SensorlessEstimator_update = (\<lambda>s. s),
     Controller_home_axis = (\<lambda>s. (True, s)),
     Controller_update = (\<lambda>pos vel s. ((True, 0), s)),
     Controller_set_vel_setpoint = (\<lambda>v cf c. c\<lparr>vel_setpoint := v\<rparr>),
     Controller_set_pos_setpoint = (\<lambda>p vf cf c. c\<lparr>pos_setpoint := p, vel_setpoint := vf\<rparr>),
     planTrapezoidal = (\<lambda>goal pos vel vmax amax dmax s. s),
     Endstop_update_min = (\<lambda>s. s),
     Endstop_update_max = (\<lambda>s. s),
     Endstop_getEndstopState = endstop_state,
     wait_for_current_meas = (\<lambda>s. (True, s)),
     HAL_GPIO_Init_dir_input = (\<lambda>w. w),
     GPIO_subscribe_step = (\<lambda>w. w),
     GPIO_unsubscribe_step = (\<lambda>w. w),
     wrap_pm_pi = (\<lambda>x. x),
     brake_resistor_armed = (\<lambda>w. True),
     vbus_voltage = (\<lambda>w. 24),
     dc_bus_undervoltage_trip_level = (\<lambda>w. 8),
     dc_bus_overvoltage_trip_level = (\<lambda>w. 26) \<rparr>"


text \<open>An axis whose chain starts with a motor calibration.\<close>

definition calibration_pending :: "(real, unit) axis" where
  "calibration_pending = (example_axis ())\<lparr>task_chain :=
     [AXIS_STATE_MOTOR_CALIBRATION, AXIS_STATE_IDLE, AXIS_STATE_UNDEFINED,
      AXIS_STATE_UNDEFINED, AXIS_STATE_UNDEFINED, AXIS_STATE_UNDEFINED, AXIS_STATE_UNDEFINED,
      AXIS_STATE_UNDEFINED, AXIS_STATE_UNDEFINED, AXIS_STATE_UNDEFINED]\<rparr>"

text \<open>A request for closed-loop control on an axis whose motor is not calibrated.\<close>

definition uncalibrated_request :: "(real, unit) axis" where
  "uncalibrated_request = (example_axis ())\<lparr>
     requested_state := AXIS_STATE_CLOSED_LOOP_CONTROL,
     motor := \<lparr> is_calibrated = False, armed_state = ARMED_STATE_NOT_DISARMED \<rparr>\<rparr>"

text \<open>A request for Idle, without and with error bits set (InvalidState and
  MotorFailed).\<close>

definition idle_request :: "(real, unit) axis" where
  "idle_request = (example_axis ())\<lparr>requested_state := AXIS_STATE_IDLE\<rparr>"

definition faulted_request :: "(real, unit) axis" where
  "faulted_request = (example_axis ())\<lparr>requested_state := AXIS_STATE_IDLE, error := 65\<rparr>"




text \<open>Homing: an encoder whose velocity readings come from \<open>world\<close>, one per tick, the
  shadow count growing by 100 per reading; when the readings are used up a request for
  Idle arrives during the wait for the next tick.\<close>

definition velocity_feed :: "(real, real list) externals" where
  "velocity_feed = example_externals\<lparr>
     wait_for_current_meas :=
       (\<lambda>s. (True, if world s = [] then s\<lparr>requested_state := AXIS_STATE_IDLE\<rparr> else s)),
     Encoder_update :=
       (\<lambda>s. case world s of
               [] \<Rightarrow> s
             | v # vs \<Rightarrow> s\<lparr>encoder := (encoder s)\<lparr>vel_estimate := v,
                                   shadow_count := shadow_count (encoder s) + 100\<rparr>,
                           world := vs\<rparr>)\<rparr>"

definition homing_start :: "real list \<Rightarrow> (real, real list) axis" where
  "homing_start vs = (example_axis vs)\<lparr>homing_state := HOMING_STATE_HOMING\<rparr>"

text \<open>Seeking the min end-stop with the deadline passed and the encoder at rest.\<close>

definition at_rest_past_deadline :: "(real, unit) axis" where
  "at_rest_past_deadline = (example_axis ())\<lparr>
     homing_state := HOMING_STATE_HOMING, loop_counter := 7, loop_counter_check := 5\<rparr>"

text \<open>Seeking the max end-stop, which is asserted, 3 counts after the min position, with
  \<^verbatim>\<open>home_percentage = 50\<close>.\<close>

definition at_max_endstop :: "(real, unit) axis" where
  "at_max_endstop = (example_axis ())\<lparr>
     homing_state := HOMING_STATE_HOMING,
     finding_min_endstop := False,
     encoder := \<lparr> pos_estimate = 0, vel_estimate = 0, phase = 0, shadow_count = 3,
       is_ready = True, use_index = False \<rparr>,
     min_endstop := \<lparr> es_config = \<lparr> enabled = True, offset = 0, home_percentage = 50,
         physical_endstop = True, min_ms_homing = 1 \<rparr>,
       endstop_state = False, offset_from_home = 0 \<rparr>,
     max_endstop := \<lparr> es_config = \<lparr> enabled = True, offset = 0, home_percentage = 0,
         physical_endstop = True, min_ms_homing = 1 \<rparr>,
       endstop_state = True, offset_from_home = 0 \<rparr>\<rparr>"

text \<open>Moving to zero with the min end-stop asserted.\<close>

definition at_min_endstop :: "(real, unit) axis" where
  "at_min_endstop = (example_axis ())\<lparr>
     homing_state := HOMING_STATE_MOVE_TO_ZERO,
     min_endstop := \<lparr> es_config = \<lparr> enabled = True, offset = 0, home_percentage = 0,
         physical_endstop = True, min_ms_homing = 1 \<rparr>,
       endstop_state = True, offset_from_home = 0 \<rparr>\<rparr>"

text \<open>Spin-up: a motor whose update always fails, and one whose update fails once the
  full spin-up current is commanded (that is, in the second stage).\<close>

definition motor_fails :: "(real, unit) externals" where
  "motor_fails = example_externals\<lparr>Motor_update := (\<lambda>I_mag ph s. (False, s))\<rparr>"

definition motor_fails_at_full_current :: "(real, unit) externals" where
  "motor_fails_at_full_current =
     example_externals\<lparr>Motor_update := (\<lambda>I_mag ph s. (I_mag < 10, s))\<rparr>"

text \<open>Step/direction input switched on.\<close>

definition stepping :: "(real, unit) axis" where
  "stepping = (example_axis ())\<lparr>step_dir_active := True\<rparr>"

text \<open>Step/direction input switched on with the setpoint at \<open>2\<^sup>2\<^sup>4\<close> and a step of one
  count.\<close>

definition far_from_zero :: "(real, unit) axis" where
  "far_from_zero = (example_axis ())\<lparr>
     step_dir_active := True,
     config := (config (example_axis ()))\<lparr>counts_per_step := 1\<rparr>,
     controller := (controller (example_axis ()))\<lparr>pos_setpoint := 16777216\<rparr>\<rparr>"




lemmas example_defs = example_axis_def example_consts_def example_externals_def
  example_endstop_def real_ops_def trunc_toward_zero_def

lemmas tick_defs = do_updates_def do_checks_def check_for_errors_def set_error_def
  current_state_def set_current_state_def set_step_dir_enabled_def

lemmas binary32_defs = binary32_ops_def round_binary32_def ulp_binary32_def binade_def
  bit_length.simps trunc_toward_zero_def

section \<open>Properties\<close>

subsection \<open>Auxiliary facts\<close>

lemma store_three:
  "3 \<le> length c \<Longrightarrow> c[0 := a, Suc 0 := b, Suc (Suc 0) := u] = a # b # u # drop 3 c"
  by (cases c; cases "tl c"; cases "tl (tl c)") (auto simp: numeral_3_eq_3)

lemma clear_mask_and: "(e AND NOT m) AND m = 0" for e m :: "32 word"
  by (simp add: and.assoc)

lemma clear_mask_bit: "\<not> bit m n \<Longrightarrow> bit (e AND NOT m) n = bit e n" for e m :: "32 word"
proof -
  assume "\<not> bit m n"
  moreover have "bit e n \<Longrightarrow> n < 32" using bit_imp_le_length [of e n] by simp
  ultimately show ?thesis by (auto simp: bit_simps)
qed

lemma current_state_set [simp]:
  "task_chain s \<noteq> [] \<Longrightarrow> current_state (set_current_state v s) = v"
  by (cases "task_chain s") (simp_all add: current_state_def set_current_state_def)

lemma set_current_state_chain_empty [simp]:
  "task_chain (set_current_state v s) = [] \<longleftrightarrow> task_chain s = []"
  by (simp add: set_current_state_def)

lemma validate_state_chain_nonempty:
  "task_chain s \<noteq> [] \<Longrightarrow> task_chain (validate_state K s) \<noteq> []"
  by (simp add: validate_state_def set_current_state_def Let_def)

lemma round_binary32_examples:
  "round_binary32 1 = 1"
  "round_binary32 (25 / 2) = 25 / 2"
  "round_binary32 (- (25 / 2)) = - (25 / 2)"
  "round_binary32 25 = 25"
  "round_binary32 (75 / 2) = 75 / 2"
  by (simp_all add: round_binary32_def ulp_binary32_def binade_def bit_length.simps)




lemma validate_state_requested [simp]:
  "requested_state (validate_state K t) = requested_state t"
  by (simp add: validate_state_def set_current_state_def Let_def)

subsection \<open>The state machine\<close>

text \<open>
  C1. In the state machine loop, for every dispatched handler: if the handler returns
  false, \<^verbatim>\<open>current_state\<close> becomes Idle and the task chain is not advanced (every entry
  but the first keeps its value); if it returns true, the task chain is shifted left by
  exactly one position, so the former \<^verbatim>\<open>task_chain[1]\<close> becomes \<^verbatim>\<open>current_state\<close>.
  Here \<open>s1\<close> is the state after the load of a pending request, \<open>s2\<close> the state the
  handler leaves and \<open>s'\<close> the state at the end of the iteration.
\<close>

theorem task_chain_advancement:
  assumes load: "load_task_chain K s = Some s1"
    and handler: "dispatch F K X (validate_state K s1) = Some (status, s2)"
    and len: "2 \<le> length (task_chain s2)"
    and result: "s' = s2\<lparr>task_chain :=
                    (if status then tl (task_chain s2) @ [last (task_chain s2)]
                     else (task_chain s2)[0 := AXIS_STATE_IDLE])\<rparr>"
  shows "state_machine_iteration F K X s = Some s'
    \<and> current_state s' = (if status then task_chain s2 ! 1 else AXIS_STATE_IDLE)"
proof -
  from len have ne: "task_chain s2 \<noteq> []" by auto
  have adv: "advance status s2 = s'"
    using ne result by (simp add: advance_def set_current_state_def shift_task_chain_def)
  have run: "state_machine_iteration F K X s = Some s'"
    using load handler adv by (simp add: state_machine_iteration_def)
  have cur: "current_state s' = (if status then task_chain s2 ! 1 else AXIS_STATE_IDLE)"
  proof (cases status)
    case True
    from len obtain a b c where "task_chain s2 = a # b # c"
      by (cases "task_chain s2"; cases "tl (task_chain s2)") auto
    with True result show ?thesis by (simp add: current_state_def)
  next
    case False
    from ne obtain a c where "task_chain s2 = a # c" by (cases "task_chain s2") auto
    with False result show ?thesis by (simp add: current_state_def)
  qed
  from run cur show ?thesis by blast
qed

theorem task_chain_advancement_witness:
  "state_machine_iteration real_ops example_consts example_externals calibration_pending
     = Some (calibration_pending\<lparr>task_chain :=
         [AXIS_STATE_IDLE, AXIS_STATE_UNDEFINED, AXIS_STATE_UNDEFINED,
          AXIS_STATE_UNDEFINED, AXIS_STATE_UNDEFINED, AXIS_STATE_UNDEFINED, AXIS_STATE_UNDEFINED,
          AXIS_STATE_UNDEFINED, AXIS_STATE_UNDEFINED, AXIS_STATE_UNDEFINED]\<rparr>)
   \<and> state_machine_iteration real_ops example_consts example_externals (example_axis ())
     = Some ((example_axis ())\<lparr>error := 1, task_chain :=
         [AXIS_STATE_IDLE, AXIS_STATE_UNDEFINED, AXIS_STATE_UNDEFINED,
          AXIS_STATE_UNDEFINED, AXIS_STATE_UNDEFINED, AXIS_STATE_UNDEFINED, AXIS_STATE_UNDEFINED,
          AXIS_STATE_UNDEFINED, AXIS_STATE_UNDEFINED, AXIS_STATE_UNDEFINED]\<rparr>)"
proof -
  have l1: "load_task_chain example_consts calibration_pending = Some calibration_pending"
    by (simp add: load_task_chain_def calibration_pending_def example_axis_def)
  have h1: "dispatch real_ops example_consts example_externals
              (validate_state example_consts calibration_pending) = Some (True, calibration_pending)"
    by (simp add: dispatch_def validate_state_def calibration_pending_def example_defs tick_defs)
  have n1: "2 \<le> length (task_chain calibration_pending)"
    by (simp add: calibration_pending_def example_axis_def)
  have l2: "load_task_chain example_consts (example_axis ()) = Some (example_axis ())"
    by (simp add: load_task_chain_def example_axis_def)
  have h2: "dispatch real_ops example_consts example_externals
              (validate_state example_consts (example_axis ()))
            = Some (False, (example_axis ())\<lparr>error := 1\<rparr>)"
    by (simp add: dispatch_def validate_state_def example_defs tick_defs)
  have n2: "2 \<le> length (task_chain ((example_axis ())\<lparr>error := 1\<rparr>))"
    by (simp add: example_axis_def)
  from task_chain_advancement [OF l1 h1 n1 refl] task_chain_advancement [OF l2 h2 n2 refl]
  show ?thesis
    by (simp add: calibration_pending_def example_axis_def)
qed

text \<open>
  C2. For every loop iteration in which \<^verbatim>\<open>current_state\<close> is stricter than
  MotorCalibration and the motor is not calibrated, \<^verbatim>\<open>current_state\<close> is forced to
  Undefined before dispatch, the default handler sets the InvalidState bit and reports
  failure, and the iteration ends with \<^verbatim>\<open>current_state\<close> Idle.
\<close>

theorem uncalibrated_state_is_invalid:
  assumes load: "load_task_chain K s = Some s1"
    and stricter: "state_value K AXIS_STATE_MOTOR_CALIBRATION < state_value K (current_state s1)"
    and uncal: "\<not> is_calibrated (motor s1)"
    and ne: "task_chain s1 \<noteq> []"
    and result: "s' = set_current_state AXIS_STATE_IDLE
                   (set_error (ERROR_INVALID_STATE K) (validate_state K s1))"
  shows "current_state (validate_state K s1) = AXIS_STATE_UNDEFINED
    \<and> dispatch F K X (validate_state K s1)
        = Some (False, set_error (ERROR_INVALID_STATE K) (validate_state K s1))
    \<and> state_machine_iteration F K X s = Some s'
    \<and> error s' AND ERROR_INVALID_STATE K = ERROR_INVALID_STATE K
    \<and> current_state s' = AXIS_STATE_IDLE"
proof -
  have forced: "current_state (validate_state K s1) = AXIS_STATE_UNDEFINED"
    using stricter uncal ne by (simp add: validate_state_def Let_def)
  then have handler: "dispatch F K X (validate_state K s1)
        = Some (False, set_error (ERROR_INVALID_STATE K) (validate_state K s1))"
    by (simp add: dispatch_def)
  have run: "state_machine_iteration F K X s = Some s'"
    using load handler result by (simp add: state_machine_iteration_def advance_def)
  have bit: "error s' AND ERROR_INVALID_STATE K = ERROR_INVALID_STATE K"
    using result by (simp add: set_current_state_def set_error_def and.commute)
  have "task_chain (set_error (ERROR_INVALID_STATE K) (validate_state K s1)) \<noteq> []"
    using validate_state_chain_nonempty [OF ne] by (simp add: set_error_def)
  then have idle: "current_state s' = AXIS_STATE_IDLE"
    using result by simp
  from forced handler run bit idle show ?thesis by blast
qed

theorem uncalibrated_state_is_invalid_witness:
  "state_machine_iteration real_ops example_consts example_externals uncalibrated_request
     = Some (uncalibrated_request\<lparr>
         task_chain := [AXIS_STATE_IDLE, AXIS_STATE_IDLE, AXIS_STATE_UNDEFINED,
           AXIS_STATE_UNDEFINED, AXIS_STATE_UNDEFINED, AXIS_STATE_UNDEFINED, AXIS_STATE_UNDEFINED,
           AXIS_STATE_UNDEFINED, AXIS_STATE_UNDEFINED, AXIS_STATE_UNDEFINED],
         requested_state := AXIS_STATE_UNDEFINED,
         error := 1\<rparr>)"
proof -
  let ?s1 = "uncalibrated_request\<lparr>
         task_chain := [AXIS_STATE_CLOSED_LOOP_CONTROL, AXIS_STATE_IDLE, AXIS_STATE_UNDEFINED,
           AXIS_STATE_UNDEFINED, AXIS_STATE_UNDEFINED, AXIS_STATE_UNDEFINED, AXIS_STATE_UNDEFINED,
           AXIS_STATE_UNDEFINED, AXIS_STATE_UNDEFINED, AXIS_STATE_UNDEFINED],
         requested_state := AXIS_STATE_UNDEFINED\<rparr>"
  have load: "load_task_chain example_consts uncalibrated_request = Some ?s1"
    by (simp add: load_task_chain_def expand_request_def store_next_def
          uncalibrated_request_def example_axis_def example_consts_def)
  have stricter: "state_value example_consts AXIS_STATE_MOTOR_CALIBRATION
                    < state_value example_consts (current_state ?s1)"
    by (simp add: current_state_def example_consts_def)
  have uncal: "\<not> is_calibrated (motor ?s1)"
    by (simp add: uncalibrated_request_def)
  have ne: "task_chain ?s1 \<noteq> []"
    by simp
  from uncalibrated_state_is_invalid [OF load stricter uncal ne refl,
         of real_ops example_externals]
  show ?thesis
    by (simp add: validate_state_def uncalibrated_request_def example_defs tick_defs)
qed




subsection \<open>Loading the task chain\<close>

text \<open>
  C3 (as amended). A request for a state other than StartupSequence, Homing and
  FullCalibrationSequence loads that state, then Idle, then the Undefined terminator into
  the first three entries of the task chain, without any collapsing: a request for Idle
  loads \<^verbatim>\<open>[Idle, Idle, Undefined]\<close>. The entries from the fourth on keep their values.
\<close>

theorem request_single_state_chain:
  assumes "requested_state s = r"
    and "r \<noteq> AXIS_STATE_UNDEFINED" and "r \<noteq> AXIS_STATE_STARTUP_SEQUENCE"
    and "r \<noteq> AXIS_STATE_HOMING" and "r \<noteq> AXIS_STATE_FULL_CALIBRATION_SEQUENCE"
    and "3 \<le> length (task_chain s)"
  shows "load_task_chain K s =
     Some (s\<lparr>task_chain := r # AXIS_STATE_IDLE # AXIS_STATE_UNDEFINED # drop 3 (task_chain s),
             requested_state := AXIS_STATE_UNDEFINED,
             error := error s AND NOT (ERROR_INVALID_STATE K)\<rparr>)"
  using assms
  by (simp add: load_task_chain_def expand_request_def store_next_def store_three)

theorem request_single_state_chain_witness:
  "load_task_chain example_consts idle_request =
     Some (idle_request\<lparr>task_chain :=
         [AXIS_STATE_IDLE, AXIS_STATE_IDLE, AXIS_STATE_UNDEFINED,
          AXIS_STATE_UNDEFINED, AXIS_STATE_UNDEFINED, AXIS_STATE_UNDEFINED, AXIS_STATE_UNDEFINED,
          AXIS_STATE_UNDEFINED, AXIS_STATE_UNDEFINED, AXIS_STATE_UNDEFINED],
       requested_state := AXIS_STATE_UNDEFINED\<rparr>)"
proof -
  have r: "requested_state idle_request = AXIS_STATE_IDLE"
    by (simp add: idle_request_def)
  have len: "3 \<le> length (task_chain idle_request)"
    by (simp add: idle_request_def example_axis_def)
  from request_single_state_chain [OF r _ _ _ _ len, of example_consts]
  show ?thesis
    by (simp add: idle_request_def example_axis_def example_consts_def)
qed

text \<open>The claim as stated, \<^verbatim>\<open>task_chain = [Idle, Undefined]\<close> after a request for
  Idle, fails: the second entry is Idle.\<close>

theorem request_idle_chain_counterexample:
  "map_option (take 3 \<circ> task_chain) (load_task_chain example_consts idle_request)
     = Some [AXIS_STATE_IDLE, AXIS_STATE_IDLE, AXIS_STATE_UNDEFINED]
   \<and> map_option (take 2 \<circ> task_chain) (load_task_chain example_consts idle_request)
     \<noteq> Some [AXIS_STATE_IDLE, AXIS_STATE_UNDEFINED]"
  by (simp add: load_task_chain_def expand_request_def store_next_def
        idle_request_def example_axis_def example_consts_def)

text \<open>
  C7. Loading a fresh task chain from a pending request clears exactly the InvalidState
  bit of \<^verbatim>\<open>error\<close> and resets \<^verbatim>\<open>requested_state\<close> to Undefined; every other bit of
  \<^verbatim>\<open>error\<close> has the value it had before the load.
\<close>

theorem load_clears_invalid_state:
  assumes "requested_state s \<noteq> AXIS_STATE_UNDEFINED"
    and "load_task_chain K s = Some s'"
  shows "requested_state s' = AXIS_STATE_UNDEFINED
    \<and> error s' = error s AND NOT (ERROR_INVALID_STATE K)
    \<and> error s' AND ERROR_INVALID_STATE K = 0
    \<and> (\<forall>n. \<not> bit (ERROR_INVALID_STATE K) n \<longrightarrow> bit (error s') n = bit (error s) n)"
  using assms
  by (auto simp add: load_task_chain_def Let_def clear_mask_and clear_mask_bit split: if_splits)

theorem load_clears_invalid_state_witness:
  "map_option requested_state (load_task_chain example_consts faulted_request)
     = Some AXIS_STATE_UNDEFINED
   \<and> error faulted_request = 65
   \<and> map_option error (load_task_chain example_consts faulted_request) = Some 64
   \<and> bit (64 :: 32 word) 6 = bit (65 :: 32 word) 6"
proof -
  let ?s' = "faulted_request\<lparr>task_chain :=
         [AXIS_STATE_IDLE, AXIS_STATE_IDLE, AXIS_STATE_UNDEFINED,
          AXIS_STATE_UNDEFINED, AXIS_STATE_UNDEFINED, AXIS_STATE_UNDEFINED, AXIS_STATE_UNDEFINED,
          AXIS_STATE_UNDEFINED, AXIS_STATE_UNDEFINED, AXIS_STATE_UNDEFINED],
       requested_state := AXIS_STATE_UNDEFINED, error := 64\<rparr>"
  have pending: "requested_state faulted_request \<noteq> AXIS_STATE_UNDEFINED"
    by (simp add: faulted_request_def)
  have load: "load_task_chain example_consts faulted_request = Some ?s'"
    by (simp add: load_task_chain_def expand_request_def store_next_def
          faulted_request_def example_axis_def example_consts_def)
  have other: "\<not> bit (ERROR_INVALID_STATE example_consts) 6"
    by (simp add: example_consts_def)
  from load_clears_invalid_state [OF pending load] other
  have "requested_state ?s' = AXIS_STATE_UNDEFINED \<and> bit (error ?s') 6 = bit (error faulted_request) 6"
    by blast
  with load show ?thesis
    by (simp add: faulted_request_def)
qed

subsection \<open>Homing\<close>

text \<open>
  C4 (as amended). While homing (seeking the min or the max end-stop), a tick makes a
  phase transition only if the current end-stop is asserted at that tick, or if at that
  tick the velocity estimate of the encoder equals zero and \<^verbatim>\<open>loop_counter\<close> has
  reached \<^verbatim>\<open>loop_counter_check\<close>. Only the velocity of the tick itself is examined.
\<close>

theorem homing_transition_trigger:
  assumes "homing_state s = HOMING_STATE_HOMING"
    and "homing_tick F K X s = (continue, s')"
    and "homing_state s' \<noteq> homing_state s \<or> finding_min_endstop s' \<noteq> finding_min_endstop s"
  shows "Endstop_getEndstopState X (endstop_at (current_endstop s) s)
    \<or> (feq F (vel_estimate (encoder s)) (f_of_int F 0) \<and> loop_counter_check s \<le> loop_counter s)"
  using assms by (auto simp add: homing_tick_def found_end_def Let_def split: if_splits)

theorem homing_transition_trigger_witness:
  "finding_min_endstop at_rest_past_deadline
   \<and> \<not> finding_min_endstop
         (snd (homing_tick real_ops example_consts example_externals at_rest_past_deadline))
   \<and> \<not> Endstop_getEndstopState (example_externals :: (real, unit) externals)
         (endstop_at (current_endstop at_rest_past_deadline) at_rest_past_deadline)
   \<and> vel_estimate (encoder at_rest_past_deadline) = 0
   \<and> loop_counter_check at_rest_past_deadline \<le> loop_counter at_rest_past_deadline"
proof -
  let ?r = "homing_tick real_ops example_consts example_externals at_rest_past_deadline"
  have homing: "homing_state at_rest_past_deadline = HOMING_STATE_HOMING"
    by (simp add: at_rest_past_deadline_def)
  have tick: "?r = (fst ?r, snd ?r)"
    by simp
  have before: "finding_min_endstop at_rest_past_deadline"
    by (simp add: at_rest_past_deadline_def example_axis_def)
  have after: "\<not> finding_min_endstop (snd ?r)"
    by (simp add: homing_tick_def homing_found_min_def found_end_def current_endstop_def endstop_at_def
          at_rest_past_deadline_def example_defs)
  have released: "\<not> Endstop_getEndstopState (example_externals :: (real, unit) externals)
         (endstop_at (current_endstop at_rest_past_deadline) at_rest_past_deadline)"
    by (simp add: current_endstop_def endstop_at_def at_rest_past_deadline_def example_defs)
  from before after
  have "homing_state (snd ?r) \<noteq> homing_state at_rest_past_deadline
        \<or> finding_min_endstop (snd ?r) \<noteq> finding_min_endstop at_rest_past_deadline"
    by simp
  from homing_transition_trigger [OF homing tick this] released
  have "vel_estimate (encoder at_rest_past_deadline) = 0
        \<and> loop_counter_check at_rest_past_deadline \<le> loop_counter at_rest_past_deadline"
    by (simp add: real_ops_def)
  with before after released show ?thesis by blast
qed

text \<open>
  The claim as stated fails: the velocity need not have been zero over the window. The
  closed-loop handler is run with the end-stops never asserted, a deadline of two ticks
  and the velocity readings 3 (tick 1) and 0 (tick 2). The transition takes place at tick
  2: the min offset is the shadow count of tick 2 (200) and the next deadline is
  \<open>2 + 2 = 4\<close>; the handler returns at tick 3, when the request for Idle is seen.
\<close>

theorem homing_zero_velocity_counterexample:
  "map_option (\<lambda>r. (fst r, finding_min_endstop (snd r), homing_state (snd r),
        offset_from_home (min_endstop (snd r)), loop_counter_check (snd r), loop_counter (snd r)))
     (run_closed_loop_control_loop real_ops example_consts velocity_feed (homing_start [3, 0]))
   = Some (True, False, HOMING_STATE_MOVE_TO_ZERO, 200, 4, 3)"
  by (simp add: run_closed_loop_control_loop_def run_control_loop.simps closed_loop_control_tick_def
        homing_tick_def homing_found_min_def homing_move_to_zero_def found_end_def current_endstop_def endstop_at_def
        velocity_feed_def homing_start_def example_defs tick_defs)

text \<open>
  C5 (as amended). In the MoveToZero phase, a closed-loop tick in which the controller
  and motor updates succeed and the min end-stop is asserted returns true and leaves the
  state as the two updates left it: \<^verbatim>\<open>homing_state\<close> stays MoveToZero, and no trajectory
  is planned.
\<close>

theorem move_to_zero_endstop_asserted:
  assumes "Controller_update X (pos_estimate (encoder s)) (vel_estimate (encoder s)) s
             = ((True, current_setpoint), s1)"
    and "Motor_update X current_setpoint (phase (encoder s1)) s1 = (True, s2)"
    and "homing_state s2 = HOMING_STATE_MOVE_TO_ZERO"
    and "Endstop_getEndstopState X (min_endstop s2)"
  shows "closed_loop_control_tick F K X u s = (True, (), s2)"
  using assms
  by (simp add: closed_loop_control_tick_def homing_tick_def homing_move_to_zero_def)

theorem move_to_zero_endstop_asserted_witness:
  "closed_loop_control_tick real_ops example_consts example_externals () at_min_endstop
     = (True, (), at_min_endstop)"
proof -
  have c: "Controller_update (example_externals :: (real, unit) externals)
             (pos_estimate (encoder at_min_endstop)) (vel_estimate (encoder at_min_endstop))
             at_min_endstop = ((True, 0), at_min_endstop)"
    by (simp add: example_externals_def)
  have m: "Motor_update (example_externals :: (real, unit) externals) 0
             (phase (encoder at_min_endstop)) at_min_endstop = (True, at_min_endstop)"
    by (simp add: example_externals_def)
  have h: "homing_state at_min_endstop = HOMING_STATE_MOVE_TO_ZERO"
    by (simp add: at_min_endstop_def)
  have e: "Endstop_getEndstopState (example_externals :: (real, unit) externals)
             (min_endstop at_min_endstop)"
    by (simp add: at_min_endstop_def example_externals_def)
  from move_to_zero_endstop_asserted [OF c m h e] show ?thesis .
qed

text \<open>The claim as stated fails: with the min end-stop asserted, the tick leaves
  \<^verbatim>\<open>homing_state\<close> at MoveToZero; it does not become Inactive.\<close>

theorem move_to_zero_counterexample:
  "Endstop_getEndstopState (example_externals :: (real, unit) externals)
     (min_endstop at_min_endstop)
   \<and> homing_state at_min_endstop = HOMING_STATE_MOVE_TO_ZERO
   \<and> homing_state (snd (snd (closed_loop_control_tick real_ops example_consts
                               example_externals () at_min_endstop)))
       = HOMING_STATE_MOVE_TO_ZERO"
  by (simp add: closed_loop_control_tick_def homing_tick_def homing_move_to_zero_def
        at_min_endstop_def example_defs)

text \<open>
  C6 (as amended). On the seek-max transition with \<^verbatim>\<open>home_percentage > 0\<close> and
  \<open>total_cpr = shadow_count - min_endstop.offset_from_home\<close>, the min offset becomes
  \<open>m\<close>, the \<^verbatim>\<open>int32_t\<close> to which the \<^verbatim>\<open>float\<close> product
  \<^verbatim>\<open>-(total_cpr * 1.0f) * (home_percentage / 100.0f)\<close> is converted (the fractional part
  is discarded); the max offset becomes \<open>total_cpr + m\<close>, the encoder's linear count
  is set to \<open>- m\<close>, position setpoint 0 is commanded and MoveToZero is entered.
\<close>

theorem seek_max_offsets:
  assumes "homing_state s = HOMING_STATE_HOMING"
    and "\<not> finding_min_endstop s"
    and "Endstop_getEndstopState X (max_endstop s) \<or> found_end F s"
    and "flt F (f_of_int F 0) (home_percentage (es_config (min_endstop s)))"
    and "total_cpr = shadow_count (encoder s) - offset_from_home (min_endstop s)"
    and "m = int32_of_f F
               (fmul F (fneg F (fmul F (f_of_int F (sint total_cpr)) (f_of_int F 1)))
                       (fdiv F (home_percentage (es_config (min_endstop s))) (f_of_int F 100)))"
    and "homing_tick F K X s = (continue, s')"
  shows "continue
    \<and> offset_from_home (min_endstop s') = m
    \<and> offset_from_home (max_endstop s') = total_cpr + m
    \<and> encoder s' = Encoder_set_linear_count X (- m) (encoder s)
    \<and> controller s' =
        Controller_set_pos_setpoint X (f_of_int F 0) (f_of_int F 0) (f_of_int F 0) (controller s)
    \<and> homing_state s' = HOMING_STATE_MOVE_TO_ZERO"
  using assms
  by (auto simp add: homing_tick_def current_endstop_def endstop_at_def homing_found_max_def Let_def)

theorem seek_max_offsets_witness:
  "offset_from_home (min_endstop
      (snd (homing_tick real_ops example_consts example_externals at_max_endstop))) = - 1
   \<and> offset_from_home (max_endstop
      (snd (homing_tick real_ops example_consts example_externals at_max_endstop))) = 2
   \<and> encoder (snd (homing_tick real_ops example_consts example_externals at_max_endstop))
       = Encoder_set_linear_count (example_externals :: (real, unit) externals) 1
           (encoder at_max_endstop)
   \<and> homing_state (snd (homing_tick real_ops example_consts example_externals at_max_endstop))
       = HOMING_STATE_MOVE_TO_ZERO"
proof -
  let ?r = "homing_tick real_ops example_consts example_externals at_max_endstop"
  have h: "homing_state at_max_endstop = HOMING_STATE_HOMING"
    by (simp add: at_max_endstop_def)
  have f: "\<not> finding_min_endstop at_max_endstop"
    by (simp add: at_max_endstop_def)
  have e: "Endstop_getEndstopState (example_externals :: (real, unit) externals)
             (max_endstop at_max_endstop)
           \<or> found_end real_ops at_max_endstop"
    by (simp add: at_max_endstop_def example_externals_def)
  have p: "flt real_ops (f_of_int real_ops 0)
             (home_percentage (es_config (min_endstop at_max_endstop)))"
    by (simp add: at_max_endstop_def real_ops_def)
  have c: "(3 :: 32 word) = shadow_count (encoder at_max_endstop)
                            - offset_from_home (min_endstop at_max_endstop)"
    by (simp add: at_max_endstop_def)
  have m: "(- 1 :: 32 word) = int32_of_f real_ops
             (fmul real_ops (fneg real_ops (fmul real_ops (f_of_int real_ops (sint (3 :: 32 word)))
                                                       (f_of_int real_ops 1)))
                (fdiv real_ops (home_percentage (es_config (min_endstop at_max_endstop)))
                               (f_of_int real_ops 100)))"
    by (simp add: at_max_endstop_def real_ops_def trunc_toward_zero_def)
  have t: "?r = (fst ?r, snd ?r)"
    by simp
  from seek_max_offsets [OF h f e p c m t] show ?thesis
    by simp
qed

text \<open>The claim as stated fails where \<open>total_cpr \<times> p / 100\<close> is not an integer: with
  \<open>total_cpr = 3\<close> and \<open>p = 50\<close> the min offset becomes \<open>-1\<close>, not \<open>-1.5\<close>, and the
  linear count is set to \<open>1\<close>.\<close>

theorem seek_max_offsets_counterexample:
  "shadow_count (encoder at_max_endstop) - offset_from_home (min_endstop at_max_endstop) = 3
   \<and> home_percentage (es_config (min_endstop at_max_endstop)) = 50
   \<and> offset_from_home (min_endstop
        (snd (homing_tick real_ops example_consts example_externals at_max_endstop))) = - 1
   \<and> real_of_int (sint (offset_from_home (min_endstop
        (snd (homing_tick real_ops example_consts example_externals at_max_endstop)))))
       \<noteq> - real_of_int (sint (shadow_count (encoder at_max_endstop)
                                - offset_from_home (min_endstop at_max_endstop)))
           * (home_percentage (es_config (min_endstop at_max_endstop)) / 100)"
  by (simp add: homing_tick_def homing_found_max_def current_endstop_def endstop_at_def
        at_max_endstop_def example_defs)

subsection \<open>Sensorless spin-up\<close>

text \<open>
  C8 (as amended). Let \<open>s1\<close> be the state in which the first stage of
  \<^verbatim>\<open>run_sensorless_spin_up\<close> ends. If \<^verbatim>\<open>error\<close> is \<^verbatim>\<open>ERROR_NONE\<close> in \<open>s1\<close>, then on
  exit \<^verbatim>\<open>controller.vel_setpoint\<close> equals \<^verbatim>\<open>config.spin_up_target_vel\<close>, whatever
  happens in the second stage (a MotorFailed there included). If an error bit is set in
  \<open>s1\<close>, the function returns false at once and the state on exit is \<open>s1\<close>: the
  setpoint is not assigned.
\<close>

theorem spin_up_vel_setpoint:
  assumes "run_sensorless_spin_up F K X s = Some (status, s')"
    and "run_control_loop F K X (spin_up_early_tick F K X) (f_of_int F 0) s = Some (x, s1)"
  shows "(error s1 = ERROR_NONE K \<longrightarrow>
            vel_setpoint (controller s') = spin_up_target_vel (config s'))
    \<and> (error s1 \<noteq> ERROR_NONE K \<longrightarrow> \<not> status \<and> s' = s1)"
  using assms
  by (auto simp add: run_sensorless_spin_up_def Let_def split: option.splits if_splits)

theorem spin_up_vel_setpoint_witness:
  "run_sensorless_spin_up real_ops example_consts motor_fails_at_full_current (example_axis ())
     = Some (False, (example_axis ())\<lparr>loop_counter := 3, error := 64,
         controller := \<lparr> pos_setpoint = 0, vel_setpoint = 3004, vel_integrator_current = 0,
           traj_start_loop_count = 0, control_mode = CTRL_MODE_POSITION_CONTROL,
           homing_speed = 2000 \<rparr>\<rparr>)
   \<and> vel_setpoint (controller ((example_axis ())\<lparr>loop_counter := 3, error := 64,
         controller := \<lparr> pos_setpoint = 0, vel_setpoint = 3004, vel_integrator_current = 0,
           traj_start_loop_count = 0, control_mode = CTRL_MODE_POSITION_CONTROL,
           homing_speed = 2000 \<rparr>\<rparr>)) = (3004 :: real)"
proof -
  let ?s' = "(example_axis ())\<lparr>loop_counter := 3, error := 64,
         controller := \<lparr> pos_setpoint = 0, vel_setpoint = 3004, vel_integrator_current = 0,
           traj_start_loop_count = 0, control_mode = CTRL_MODE_POSITION_CONTROL,
           homing_speed = 2000 \<rparr>\<rparr>"
  have early: "run_control_loop real_ops example_consts motor_fails_at_full_current
                 (spin_up_early_tick real_ops example_consts motor_fails_at_full_current)
                 (f_of_int real_ops 0) (example_axis ())
               = Some (1, (example_axis ())\<lparr>loop_counter := 2\<rparr>)"
    by (simp add: run_control_loop.simps spin_up_early_tick_def
          motor_fails_at_full_current_def example_defs tick_defs)
  have run: "run_sensorless_spin_up real_ops example_consts motor_fails_at_full_current
               (example_axis ()) = Some (False, ?s')"
    by (simp add: run_sensorless_spin_up_def run_control_loop.simps spin_up_early_tick_def
          spin_up_late_tick_def motor_fails_at_full_current_def example_defs tick_defs)
  have clean: "error ((example_axis ())\<lparr>loop_counter := 2\<rparr>) = ERROR_NONE example_consts"
    by (simp add: example_axis_def example_consts_def)
  from spin_up_vel_setpoint [OF run early] clean
  have "vel_setpoint (controller ?s') = spin_up_target_vel (config ?s')"
    by blast
  with run show ?thesis
    by (simp add: example_axis_def)
qed

text \<open>The claim as stated fails on the exit after a failed first stage: the motor
  update fails in the first tick, MotorFailed (64) is set, the function returns false,
  and \<^verbatim>\<open>vel_setpoint\<close> is still 0 while \<^verbatim>\<open>spin_up_target_vel\<close> is 3004.\<close>

theorem spin_up_early_failure_counterexample:
  "map_option (\<lambda>r. (fst r, error (snd r), vel_setpoint (controller (snd r)),
                     spin_up_target_vel (config (snd r))))
     (run_sensorless_spin_up real_ops example_consts motor_fails (example_axis ()))
   = Some (False, 64, 0, 3004)"
  by (simp add: run_sensorless_spin_up_def run_control_loop.simps spin_up_early_tick_def
        motor_fails_def example_defs tick_defs)

subsection \<open>Step/direction input\<close>

text \<open>
  C9 (as amended). While \<^verbatim>\<open>enable_step_dir_\<close> is true, an invocation of the step-edge
  callback replaces \<^verbatim>\<open>controller.pos_setpoint\<close> by the \<^verbatim>\<open>float\<close> sum of its value and
  \<^verbatim>\<open>counts_per_step\<close> when the direction pin reads high, and of its value and
  \<^verbatim>\<open>-counts_per_step\<close> when it reads low, and changes nothing else. The new value is the
  rounded exact sum, so the setpoint changes by exactly \<open>\<plusminus>\<close>\<^verbatim>\<open>counts_per_step\<close> where
  the exact sum needs no rounding. While the flag is false the callback changes nothing.

  \<open>val\<close> reads a \<^verbatim>\<open>float\<close> as a real number and \<open>rnd\<close> is the rounding of the
  addition. The first two assumptions say that multiplying \<^verbatim>\<open>counts_per_step\<close> by
  \<^verbatim>\<open>1.0f\<close> and by \<^verbatim>\<open>-1.0f\<close> is exact.
\<close>

theorem step_cb_pos_setpoint:
  assumes one: "fmul F (f_of_int F 1) (counts_per_step (config s)) = counts_per_step (config s)"
    and minus_one: "fmul F (fneg F (f_of_int F 1)) (counts_per_step (config s))
                      = fneg F (counts_per_step (config s))"
    and add: "\<And>a b. (val (fadd F a b) :: real) = rnd (val a + val b)"
    and neg: "\<And>a. val (fneg F a) = - val a"
    and new: "s' = step_cb F dir_pin_set s"
  shows "(step_dir_active s \<and> dir_pin_set \<longrightarrow>
            s' = s\<lparr>controller := (controller s)\<lparr>pos_setpoint :=
                   fadd F (pos_setpoint (controller s)) (counts_per_step (config s))\<rparr>\<rparr>
            \<and> val (pos_setpoint (controller s'))
                = rnd (val (pos_setpoint (controller s)) + val (counts_per_step (config s)))
            \<and> (rnd (val (pos_setpoint (controller s)) + val (counts_per_step (config s)))
                  = val (pos_setpoint (controller s)) + val (counts_per_step (config s))
               \<longrightarrow> val (pos_setpoint (controller s')) - val (pos_setpoint (controller s))
                     = val (counts_per_step (config s))))
    \<and> (step_dir_active s \<and> \<not> dir_pin_set \<longrightarrow>
            s' = s\<lparr>controller := (controller s)\<lparr>pos_setpoint :=
                   fadd F (pos_setpoint (controller s)) (fneg F (counts_per_step (config s)))\<rparr>\<rparr>
            \<and> val (pos_setpoint (controller s'))
                = rnd (val (pos_setpoint (controller s)) - val (counts_per_step (config s)))
            \<and> (rnd (val (pos_setpoint (controller s)) - val (counts_per_step (config s)))
                  = val (pos_setpoint (controller s)) - val (counts_per_step (config s))
               \<longrightarrow> val (pos_setpoint (controller s')) - val (pos_setpoint (controller s))
                     = - val (counts_per_step (config s))))
    \<and> (\<not> step_dir_active s \<longrightarrow> s' = s)"
  using assms by (simp add: step_cb_def)

theorem step_cb_pos_setpoint_witness:
  "step_cb binary32_ops True stepping
     = stepping\<lparr>controller := (controller stepping)\<lparr>pos_setpoint := 25 / 2\<rparr>\<rparr>
   \<and> pos_setpoint (controller (step_cb binary32_ops True (step_cb binary32_ops True
        (step_cb binary32_ops True stepping)))) = 75 / 2
   \<and> pos_setpoint (controller (step_cb binary32_ops False stepping)) = - (25 / 2)
   \<and> step_cb binary32_ops True (example_axis ()) = example_axis ()"
proof -
  let ?at = "\<lambda>x. stepping\<lparr>controller := (controller stepping)\<lparr>pos_setpoint := x\<rparr>\<rparr>"
  have one: "fmul binary32_ops (f_of_int binary32_ops 1) (counts_per_step (config s))
               = counts_per_step (config s)"
    if "counts_per_step (config s) = 25 / 2" for s :: "(real, unit) axis"
    unfolding that by (simp add: binary32_ops_def round_binary32_examples)
  have minus_one: "fmul binary32_ops (fneg binary32_ops (f_of_int binary32_ops 1))
                     (counts_per_step (config s)) = fneg binary32_ops (counts_per_step (config s))"
    if "counts_per_step (config s) = 25 / 2" for s :: "(real, unit) axis"
    unfolding that by (simp add: binary32_ops_def round_binary32_examples)
  have add: "fadd binary32_ops a b = round_binary32 (a + b)" for a b
    by (simp add: binary32_ops_def)
  have neg: "fneg binary32_ops a = - a" for a
    by (simp add: binary32_ops_def)
  have step: "(step_dir_active s \<and> d \<longrightarrow>
                 pos_setpoint (controller (step_cb binary32_ops d s))
                   = round_binary32 (pos_setpoint (controller s) + counts_per_step (config s))
                 \<and> step_cb binary32_ops d s = s\<lparr>controller := (controller s)\<lparr>pos_setpoint :=
                     fadd binary32_ops (pos_setpoint (controller s)) (counts_per_step (config s))\<rparr>\<rparr>)
            \<and> (step_dir_active s \<and> \<not> d \<longrightarrow>
                 pos_setpoint (controller (step_cb binary32_ops d s))
                   = round_binary32 (pos_setpoint (controller s) - counts_per_step (config s)))
            \<and> (\<not> step_dir_active s \<longrightarrow> step_cb binary32_ops d s = s)"
    if "counts_per_step (config s) = 25 / 2" for s :: "(real, unit) axis" and d
    using step_cb_pos_setpoint [where F = binary32_ops and s = s and val = "\<lambda>x. x"
            and rnd = round_binary32 and dir_pin_set = d,
            OF one [OF that] minus_one [OF that] add neg refl]
    by (auto simp add: add neg)
  have cps: "counts_per_step (config (?at x)) = 25 / 2" for x
    by (simp add: stepping_def example_axis_def)
  have cps0: "counts_per_step (config stepping) = 25 / 2"
    by (simp add: stepping_def example_axis_def)
  have active: "step_dir_active (?at x)" for x
    by (simp add: stepping_def)
  have pos: "pos_setpoint (controller (?at x)) = x" for x
    by simp
  have start: "stepping = ?at 0"
    by (simp add: stepping_def example_axis_def)
  have up: "step_cb binary32_ops True (?at x) = ?at (round_binary32 (x + 25 / 2))" for x
    using step [OF cps, of x True] active [of x]
    by (simp add: add cps0)
  have first: "step_cb binary32_ops True (?at 0) = ?at (25 / 2)"
    using up [of 0] by (simp add: round_binary32_examples)
  have second: "step_cb binary32_ops True (?at (25 / 2)) = ?at 25"
    using up [of "25 / 2"] by (simp add: round_binary32_examples)
  have third: "step_cb binary32_ops True (?at 25) = ?at (75 / 2)"
    using up [of 25] by (simp add: round_binary32_examples)
  have down: "pos_setpoint (controller (step_cb binary32_ops False (?at 0))) = - (25 / 2)"
    using step [OF cps, of 0 False] active [of 0]
    by (simp add: cps0 round_binary32_examples)
  have off: "step_cb binary32_ops True (example_axis ()) = example_axis ()"
  proof -
    have "counts_per_step (config (example_axis ())) = 25 / 2"
      by (simp add: example_axis_def)
    from step [OF this, of True] show ?thesis
      by (simp add: example_axis_def)
  qed
  from first second third down off show ?thesis
    by (simp add: start [symmetric] first second third)
qed

text \<open>
  The claim as stated fails where the sum is rounded: in single precision the values
  above \<open>2\<^sup>2\<^sup>4 = 16777216\<close> are two apart, so with the setpoint at \<open>2\<^sup>2\<^sup>4\<close>, a step of
  one count and the direction pin high the callback leaves the setpoint where it is.
\<close>

theorem step_cb_rounding_counterexample:
  "step_dir_active far_from_zero
   \<and> counts_per_step (config far_from_zero) = 1
   \<and> pos_setpoint (controller far_from_zero) = 16777216
   \<and> pos_setpoint (controller (step_cb binary32_ops True far_from_zero)) = 16777216"
  by (simp add: step_cb_def far_from_zero_def example_axis_def binary32_defs)

end
